theory Spec2Isabelle
  imports Complex_Main "HOL-Library.Multiset" "HOL-Library.Char_ord" "HOL-Library.List_Lexorder"
    "HOL-Library.Log_Nat"
begin

section \<open>Technician hours tracker: the data pipeline of Hours\_Process\_app.py\<close>

text \<open>
  The script reads spreadsheets of labour records, converts every duration cell to decimal
  hours (\<open>time_to_hours\<close>), groups the rows by technician, left-joins the groups onto the
  fixed list \<open>MANUAL_TECHS\<close> and picks a bar colour per technician (\<open>get_bar_color\<close>).

  Modelling decisions, valid for the whole development:
  \<^item> A finite Python float is the real number it denotes. Arithmetic on floats is exact,
    except in \<open>round2\<close> and in \<open>float(t)\<close> of an integer, where the rounding to a
    double is applied (\<open>fl\<close>). The exponent range of \<open>fl\<close> is unbounded.
  \<^item> A spreadsheet cell is a value of the datatype \<open>cell\<close>, one constructor per branch of
    the \<open>isinstance\<close> cascade of \<open>time_to_hours\<close>; its numbers are finite.
    \<open>time_to_hours\<close> is the function on cells, as the per-file loop applies it.
  \<^item> \<open>time_to_hours_py\<close> is the same function on any Python scalar: integers of any
    size, the floats \<open>inf\<close> and \<open>nan\<close>, parsers that return \<open>NaT\<close>, and the exception
    that \<open>float(t)\<close> raises. On a cell the two functions agree.
  \<^item> The library routines the script calls on text (\<open>pd.to_timedelta\<close>,
    \<open>pd.to_datetime\<close>, \<open>float\<close>, \<open>str\<close>) are parameters, collected in the records
    \<open>pylib\<close> and \<open>pylib_py\<close>. A parser returns \<open>None\<close> where the library raises.
  \<^item> \<open>sort_values\<close> is the library's too; it is a parameter of \<open>summary\<close>.
  \<^item> Text is ASCII, apart from the two whitespace characters U+0085 and U+00A0 that
    \<open>str.strip\<close> removes; the column names of a data frame are distinct, as
    \<open>pd.read_excel\<close> makes them.
\<close>

subsection \<open>Cells and the library routines\<close>

datatype cell =
    Null                    \<comment> \<open>\<open>pd.isnull(t)\<close>: None, NaN, NaT\<close>
  | Timedelta real          \<comment> \<open>\<open>pd.Timedelta\<close>, by its \<open>total_seconds()\<close>\<close>
  | Timestamp nat nat nat   \<comment> \<open>\<open>pd.Timestamp\<close> or \<open>datetime.datetime\<close>: hour, minute, second\<close>
  | ClockTime nat nat nat   \<comment> \<open>\<open>datetime.time\<close>: hour, minute, second\<close>
  | Numeric real            \<comment> \<open>int, float, bool and the numpy numbers, by \<open>float(t)\<close>\<close>
  | Text string             \<comment> \<open>anything else; in a spreadsheet, a string\<close>

record pylib =
  to_timedelta :: "string \<Rightarrow> real option"
    \<comment> \<open>\<open>pd.to_timedelta(t).total_seconds()\<close>, \<open>None\<close> when it raises\<close>
  to_datetime :: "string \<Rightarrow> (nat \<times> nat \<times> nat) option"
    \<comment> \<open>hour, minute and second of \<open>pd.to_datetime(t)\<close>, \<open>None\<close> when it raises\<close>
  float_of_str :: "string \<Rightarrow> real option"
    \<comment> \<open>\<open>float(str(t))\<close>, \<open>None\<close> when it raises\<close>
  str_of :: "cell \<Rightarrow> string"
    \<comment> \<open>\<open>str(t)\<close> of a cell that is not text\<close>

subsection \<open>\<open>time_to_hours\<close>\<close>

definition hour_of_day :: "nat \<Rightarrow> nat \<Rightarrow> nat \<Rightarrow> real" where
  "hour_of_day h m s = real h + real m / 60 + real s / 3600"

fun time_to_hours :: "pylib \<Rightarrow> cell \<Rightarrow> real" where
  "time_to_hours L Null = 0"
| "time_to_hours L (Timedelta secs) = secs / 3600"
| "time_to_hours L (Timestamp h m s) = hour_of_day h m s"
| "time_to_hours L (ClockTime h m s) = hour_of_day h m s"
| "time_to_hours L (Numeric val) = (if 0 \<le> val \<and> val \<le> 1 then val * 24 else val)"
| "time_to_hours L (Text t) =
     (case to_timedelta L t of
        Some secs \<Rightarrow> secs / 3600
      | None \<Rightarrow>
         (case to_datetime L t of
            Some (h, m, s) \<Rightarrow> hour_of_day h m s
          | None \<Rightarrow>
             (case float_of_str L t of
                Some v \<Rightarrow> v
              | None \<Rightarrow> 0)))"

text \<open>
  A small stand-in for the library, used to run the closed examples: a lookup table on a
  handful of strings; every other string fails to parse.
\<close>

definition sample_lib :: pylib where
  "sample_lib =
     \<lparr> to_timedelta = map_of [(''01:30:00'', 5400), (''-1 days'', - 86400)],
       to_datetime = map_of [(''2024-03-01 14:15:00'', (14, 15, 0))],
       float_of_str = map_of [(''1_000'', 1000)],
       str_of = (\<lambda>c. ''?'') \<rparr>"

subsection \<open>Rounding to a double\<close>

definition rint :: "real \<Rightarrow> int" where
  \<comment> \<open>round to the nearest integer, a tie to the even one\<close>
  "rint x =
     (let f = \<lfloor>x\<rfloor>; d = x - of_int f
      in if d < 1 / 2 then f else if 1 / 2 < d then f + 1 else if even f then f else f + 1)"

text \<open>
  \<open>fl x\<close> is \<open>x\<close> rounded to the nearest double: 53 significant bits, a tie to the even
  one. \<open>expo x\<close> is the exponent of the leading bit of \<open>x\<close>.
\<close>

definition expo :: "real \<Rightarrow> int" where
  "expo x =
     (let a = \<bar>x\<bar>
      in if 1 \<le> a then bitlen \<lfloor>a\<rfloor> - 1 else - bitlen (\<lceil>1 / a\<rceil> - 1))"

definition fl :: "real \<Rightarrow> real" where
  "fl x =
     (if x = 0 then 0
      else let q = 2 powi (expo x - 52) in of_int (rint (x / q)) * q)"

subsection \<open>\<open>time_to_hours\<close> on any scalar value\<close>

datatype pyfloat =
    Fin real   \<comment> \<open>a finite float\<close>
  | PosInf     \<comment> \<open>\<open>inf\<close>\<close>
  | NegInf     \<comment> \<open>\<open>-inf\<close>\<close>
  | NaN        \<comment> \<open>\<open>nan\<close>\<close>

datatype stamp =
    NaT                 \<comment> \<open>\<open>pd.NaT\<close>, whose \<open>hour\<close>, \<open>minute\<close> and \<open>second\<close> are \<open>nan\<close>\<close>
  | Stamp nat nat nat   \<comment> \<open>hour, minute, second\<close>

datatype exn = OverflowError

datatype pyvalue =
    PyNone                      \<comment> \<open>\<open>None\<close>, \<open>pd.NaT\<close>, \<open>pd.NA\<close>\<close>
  | PyTimedelta real            \<comment> \<open>\<open>pd.Timedelta\<close>, by its \<open>total_seconds()\<close>\<close>
  | PyTimestamp nat nat nat     \<comment> \<open>\<open>pd.Timestamp\<close> or \<open>datetime.datetime\<close>\<close>
  | PyTime nat nat nat          \<comment> \<open>\<open>datetime.time\<close>\<close>
  | PyInt int                   \<comment> \<open>\<open>int\<close> (unbounded), \<open>bool\<close>, numpy integers\<close>
  | PyFloat pyfloat             \<comment> \<open>\<open>float\<close>, numpy floats\<close>
  | PyOther string              \<comment> \<open>a string, or any other scalar object\<close>

record pylib_py =
  to_timedelta_py :: "string \<Rightarrow> pyfloat option"
    \<comment> \<open>\<open>pd.to_timedelta(t).total_seconds()\<close>: \<open>nan\<close> for \<open>NaT\<close>, \<open>None\<close> when it raises\<close>
  to_datetime_py :: "string \<Rightarrow> stamp option"
    \<comment> \<open>\<open>pd.to_datetime(t)\<close>, \<open>None\<close> when it raises\<close>
  float_py :: "string \<Rightarrow> pyfloat option"
    \<comment> \<open>\<open>float(str(t))\<close>, \<open>None\<close> when it raises\<close>

text \<open>
  \<open>float(t)\<close> of an integer is the nearest double. It raises \<open>OverflowError\<close> when
  the integer rounds to \<open>2 ^ 1024\<close> or beyond, that is from \<open>2 ^ 1024 - 2 ^ 970\<close> on:
  half-way between the largest double and \<open>2 ^ 1024\<close>, where the tie goes up.
\<close>

definition float_of_int :: "int \<Rightarrow> exn + pyfloat" where
  "float_of_int i =
     (if \<bar>i\<bar> < 2 ^ 1024 - 2 ^ 970 then Inr (Fin (fl (of_int i))) else Inl OverflowError)"

text \<open>
  \<open>val * 24.0 if 0 <= val <= 1 else val\<close>, then the division of the first \<open>try\<close> and
  the hour-of-day formula of the second, on floats that may be \<open>inf\<close> or \<open>nan\<close>.
\<close>

fun day_fraction :: "pyfloat \<Rightarrow> pyfloat" where
  "day_fraction (Fin val) = Fin (if 0 \<le> val \<and> val \<le> 1 then val * 24 else val)"
| "day_fraction val = val"

fun per_3600 :: "pyfloat \<Rightarrow> pyfloat" where
  "per_3600 (Fin secs) = Fin (secs / 3600)"
| "per_3600 secs = secs"

fun hour_of_stamp :: "stamp \<Rightarrow> pyfloat" where
  "hour_of_stamp NaT = NaN"
| "hour_of_stamp (Stamp h m s) = Fin (hour_of_day h m s)"

text \<open>
  The first two equations are \<open>pd.isnull(t)\<close>. \<open>float(t)\<close> is outside every \<open>try\<close>,
  so its exception leaves the function; the three parsers are inside one each.
\<close>

fun time_to_hours_py :: "pylib_py \<Rightarrow> pyvalue \<Rightarrow> exn + pyfloat" where
  "time_to_hours_py L PyNone = Inr (Fin 0)"
| "time_to_hours_py L (PyFloat NaN) = Inr (Fin 0)"
| "time_to_hours_py L (PyTimedelta secs) = Inr (Fin (secs / 3600))"
| "time_to_hours_py L (PyTimestamp h m s) = Inr (Fin (hour_of_day h m s))"
| "time_to_hours_py L (PyTime h m s) = Inr (Fin (hour_of_day h m s))"
| "time_to_hours_py L (PyInt i) =
     (case float_of_int i of
        Inl e \<Rightarrow> Inl e
      | Inr val \<Rightarrow> Inr (day_fraction val))"
| "time_to_hours_py L (PyFloat val) = Inr (day_fraction val)"
| "time_to_hours_py L (PyOther t) =
     Inr (case to_timedelta_py L t of
            Some secs \<Rightarrow> per_3600 secs
          | None \<Rightarrow>
             (case to_datetime_py L t of
                Some dt \<Rightarrow> hour_of_stamp dt
              | None \<Rightarrow>
                 (case float_py L t of
                    Some v \<Rightarrow> v
                  | None \<Rightarrow> Fin 0)))"

text \<open>A cell as a Python value, and the cell-level library as a library of this kind.\<close>

fun value_of :: "cell \<Rightarrow> pyvalue" where
  "value_of Null = PyNone"
| "value_of (Timedelta secs) = PyTimedelta secs"
| "value_of (Timestamp h m s) = PyTimestamp h m s"
| "value_of (ClockTime h m s) = PyTime h m s"
| "value_of (Numeric val) = PyFloat (Fin val)"
| "value_of (Text t) = PyOther t"

definition lib_py :: "pylib \<Rightarrow> pylib_py" where
  "lib_py L =
     \<lparr> to_timedelta_py = (\<lambda>t. map_option Fin (to_timedelta L t)),
       to_datetime_py = (\<lambda>t. map_option (\<lambda>(h, m, s). Stamp h m s) (to_datetime L t)),
       float_py = (\<lambda>t. map_option Fin (float_of_str L t)) \<rparr>"

text \<open>The stand-in library again, with a string that parses to \<open>NaT\<close> and one to \<open>inf\<close>.\<close>

definition sample_lib_py :: pylib_py where
  "sample_lib_py =
     \<lparr> to_timedelta_py = map_of [(''01:30:00'', Fin 5400), (''NaT'', NaN)],
       to_datetime_py = map_of [(''2024-03-01 14:15:00'', Stamp 14 15 0)],
       float_py = map_of [(''1_000'', Fin 1000), (''inf'', PosInf)] \<rparr>"

subsection \<open>Strings: \<open>str.strip\<close> and \<open>str.upper\<close>\<close>

definition is_space :: "char \<Rightarrow> bool" where
  \<comment> \<open>the characters below 256 for which \<open>str.isspace\<close> holds\<close>
  "is_space c =
     (let n = (of_char c :: nat)
      in (9 \<le> n \<and> n \<le> 13) \<or> (28 \<le> n \<and> n \<le> 32) \<or> n = 133 \<or> n = 160)"

definition strip :: "string \<Rightarrow> string" where
  "strip s = rev (dropWhile is_space (rev (dropWhile is_space s)))"

definition upper_char :: "char \<Rightarrow> char" where
  "upper_char c =
     (let n = (of_char c :: nat) in if 97 \<le> n \<and> n \<le> 122 then char_of (n - 32) else c)"

definition upper :: "string \<Rightarrow> string" where
  "upper s = map upper_char s"

subsection \<open>Configuration\<close>

definition MANUAL_TECHS_listed :: "string list" where
  "MANUAL_TECHS_listed =
     [''SRIJAN'', ''EPELI_23'', ''AMITESHWAR_22'', ''KAUSHIK_23'', ''RATHNAYAKA'',
      ''NITUN_22'', ''ROMAN_01'', ''NIKLESH_25'', ''SUMIT_22'', ''NAND_22'',
      ''VILIAME'', ''ANISH'', ''PAUL_22'', ''SAILESH_22'', ''KAPIL_25'',
      ''NITENDRA_25'', ''GOSAI_25'', ''JOE_22'', ''RAHUL_24'', ''ROHIT'']"

text \<open>
  \<open>sorted(MANUAL_TECHS, key=str.upper)\<close>: Python's \<open>sorted\<close> is stable and compares
  strings by code point, as \<^const>\<open>sort_key\<close> does on \<^typ>\<open>string\<close> with the
  lexicographic order on characters.
\<close>

definition MANUAL_TECHS :: "string list" where
  "MANUAL_TECHS = sort_key upper MANUAL_TECHS_listed"

definition TECHNICIAN_COL :: string where
  "TECHNICIAN_COL = ''Technician''"

definition WORK_ORDER_COL :: string where
  "WORK_ORDER_COL = ''Work order for labor reporting''"

definition HOURS_COL :: string where
  "HOURS_COL = ''Labor reporting time (duration)''"

subsection \<open>Data frames and the per-file loop\<close>

text \<open>
  A data frame is its list of column names and its rows, each row listing its cells in
  the order of the columns. A cell a row does not have reads as missing.
\<close>

record dataframe =
  columns :: "string list"
  rows :: "cell list list"

definition cell_at :: "dataframe \<Rightarrow> string \<Rightarrow> cell list \<Rightarrow> cell" where
  "cell_at df col r = (case map_of (zip (columns df) r) col of Some c \<Rightarrow> c | None \<Rightarrow> Null)"

record labor_row =
  technician :: string
  work_order :: cell
  hours :: real

fun astype_str :: "pylib \<Rightarrow> cell \<Rightarrow> string" where
  "astype_str L (Text s) = s"
| "astype_str L c = str_of L c"

definition missing_cols :: "dataframe \<Rightarrow> string list" where
  "missing_cols df =
     filter (\<lambda>col. col \<notin> set (columns df)) [TECHNICIAN_COL, WORK_ORDER_COL, HOURS_COL]"

definition dropna :: "dataframe \<Rightarrow> cell list list" where
  \<comment> \<open>\<open>df.dropna(subset=[TECHNICIAN_COL, HOURS_COL])\<close>\<close>
  "dropna df =
     filter (\<lambda>r. cell_at df TECHNICIAN_COL r \<noteq> Null \<and> cell_at df HOURS_COL r \<noteq> Null) (rows df)"

definition clean_row :: "pylib \<Rightarrow> dataframe \<Rightarrow> cell list \<Rightarrow> labor_row" where
  "clean_row L df r =
     \<lparr> technician = upper (strip (astype_str L (cell_at df TECHNICIAN_COL r))),
       work_order = cell_at df WORK_ORDER_COL r,
       hours = time_to_hours L (cell_at df HOURS_COL r) \<rparr>"

definition clean :: "pylib \<Rightarrow> dataframe \<Rightarrow> labor_row list" where
  "clean L df = map (clean_row L df) (dropna df)"

text \<open>
  An uploaded file: its name and what \<open>pd.read_excel\<close> makes of it, \<open>None\<close> when it
  raises. What the page shows is a list of messages.
\<close>

record upload =
  file_name :: string
  read_excel :: "dataframe option"

datatype message =
    Skipping string "string list"   \<comment> \<open>\<open>st.warning\<close>: file name and missing columns\<close>
  | Failed string                   \<comment> \<open>\<open>st.error\<close>: file name\<close>
  | NoValidData
  | PleaseUpload

record run =
  all_data :: "labor_row list list"
  shown :: "message list"

definition process_file :: "pylib \<Rightarrow> run \<Rightarrow> upload \<Rightarrow> run" where
  "process_file L st f =
     (case read_excel f of
        None \<Rightarrow> st\<lparr>shown := shown st @ [Failed (file_name f)]\<rparr>
      | Some df \<Rightarrow>
          if missing_cols df \<noteq> []
          then st\<lparr>shown := shown st @ [Skipping (file_name f) (missing_cols df)]\<rparr>
          else st\<lparr>all_data := all_data st @ [clean L df]\<rparr>)"

definition process_files :: "pylib \<Rightarrow> upload list \<Rightarrow> run" where
  "process_files L fs = foldl (process_file L) \<lparr>all_data = [], shown = []\<rparr> fs"

subsection \<open>Grouping\<close>

definition nunique :: "cell list \<Rightarrow> nat" where
  \<comment> \<open>pandas' \<open>nunique\<close> with its default \<open>dropna=True\<close>\<close>
  "nunique cs = length (remdups (filter (\<lambda>c. c \<noteq> Null) cs))"

definition grouped :: "labor_row list \<Rightarrow> (string \<times> nat \<times> real) list" where
  "grouped combined =
     map (\<lambda>t. let g = filter (\<lambda>r. technician r = t) combined
              in (t, nunique (map work_order g), sum_list (map hours g)))
       (sort (remdups (map technician combined)))"

subsection \<open>The merge onto the roster\<close>

record summary_row =
  Technician :: string
  Work_Orders_Completed :: int
  Total_Hours_Worked :: real

definition merge_left ::
  "string list \<Rightarrow> (string \<times> nat \<times> real) list \<Rightarrow> (string \<times> nat option \<times> real option) list" where
  \<comment> \<open>\<open>manual_df.merge(grouped, on=TECHNICIAN_COL, how="left")\<close>\<close>
  "merge_left manual g =
     concat (map (\<lambda>t. case filter (\<lambda>e. fst e = t) g of
                         [] \<Rightarrow> [(t, None, None)]
                       | ms \<Rightarrow> map (\<lambda>e. (t, Some (fst (snd e)), Some (snd (snd e)))) ms)
                 manual)"

definition fillna :: "'a \<Rightarrow> 'a option \<Rightarrow> 'a" where
  "fillna d v = (case v of None \<Rightarrow> d | Some x \<Rightarrow> x)"

definition round2 :: "real \<Rightarrow> real" where
  \<comment> \<open>\<open>Series.round(2)\<close>, which is numpy's: multiply by 100, round to the nearest
      integer, divide by 100, each a double operation\<close>
  "round2 x = fl (of_int (rint (fl (x * 100))) / 100)"

definition filled :: "string \<times> nat option \<times> real option \<Rightarrow> summary_row" where
  "filled e =
     \<lparr> Technician = fst e,
       Work_Orders_Completed = int (fillna 0 (fst (snd e))),
       Total_Hours_Worked = round2 (fillna 0 (snd (snd e))) \<rparr>"

text \<open>
  \<open>sort_values(by="Total_Hours_Worked", ascending=False, ignore_index=True)\<close> is the
  library's; it is the parameter \<open>sort_values\<close>. What the library promises of the result
  is that it is the same rows, in descending order of the column.
\<close>

definition summary ::
  "(summary_row list \<Rightarrow> summary_row list) \<Rightarrow> bool \<Rightarrow> string list
     \<Rightarrow> (string \<times> nat \<times> real) list \<Rightarrow> summary_row list" where
  "summary sort_values sort_by_hours manual g =
     (let s = map filled (merge_left manual g)
      in if sort_by_hours then sort_values s else s)"

definition descending :: "summary_row list \<Rightarrow> bool" where
  "descending s = sorted_wrt (\<lambda>a b. Total_Hours_Worked b \<le> Total_Hours_Worked a) s"

definition sorts_descending :: "(summary_row list \<Rightarrow> summary_row list) \<Rightarrow> bool" where
  "sorts_descending sort_values =
     (\<forall>s. mset (sort_values s) = mset s \<and> descending (sort_values s))"

text \<open>A routine that meets this contract, for the closed examples.\<close>

definition stable_sort_values :: "summary_row list \<Rightarrow> summary_row list" where
  "stable_sort_values s = rev (sort_key Total_Hours_Worked (rev s))"

subsection \<open>The whole run\<close>

definition app ::
  "pylib \<Rightarrow> (summary_row list \<Rightarrow> summary_row list) \<Rightarrow> bool \<Rightarrow> upload list
     \<Rightarrow> message list \<times> summary_row list option" where
  "app L sort_values sort_by_hours uploaded_files =
     (if uploaded_files = [] then ([PleaseUpload], None)
      else let st = process_files L uploaded_files
           in if all_data st = [] then (shown st @ [NoValidData], None)
              else (shown st,
                    Some (summary sort_values sort_by_hours MANUAL_TECHS
                            (grouped (concat (all_data st))))))"

subsection \<open>\<open>get_bar_color\<close>\<close>

datatype color =
    Hex string                  \<comment> \<open>a colour string such as \<open>"#FF0000"\<close>\<close>
  | RGBA real real real real    \<comment> \<open>what a colormap returns\<close>

definition get_bar_color :: "(real \<Rightarrow> color) \<Rightarrow> real \<Rightarrow> real \<Rightarrow> color" where
  "get_bar_color cmap hrs max_hours =
     (let max_for_norm = max max_hours 20
      in if hrs < 20 then Hex ''#FF0000''
         else cmap (if max_for_norm - 20 > 0 then (hrs - 20) / (max_for_norm - 20) else 0))"

definition clamp01 :: "real \<Rightarrow> real" where
  "clamp01 p = max 0 (min 1 p)"

definition mix :: "real \<times> real \<times> real \<Rightarrow> real \<times> real \<times> real \<Rightarrow> real \<Rightarrow> color" where
  "mix a b t =
     (case (a, b) of ((r1, g1, b1), (r2, g2, b2)) \<Rightarrow>
        RGBA (r1 + (r2 - r1) * t) (g1 + (g2 - g1) * t) (b1 + (b2 - b1) * t) 1)"

definition orange :: "real \<times> real \<times> real" where
  "orange = (1, 165 / 255, 0)"

definition yellow :: "real \<times> real \<times> real" where
  "yellow = (1, 1, 0)"

definition green :: "real \<times> real \<times> real" where
  "green = (0, 128 / 255, 0)"

definition gradient :: "real \<Rightarrow> color" where
  \<comment> \<open>Modelled from the spec: the colormap
      \<open>LinearSegmentedColormap.from_list("", ["orange", "yellow", "green"])\<close> is the plotting
      library's and not part of the source. The spec gives it as a position clamped to
      \<open>[0, 1]\<close> and mapped through a three-stop piecewise-linear gradient, orange, yellow,
      green from low to high, interpolated component-wise in RGB.\<close>
  "gradient p =
     (let q = clamp01 p
      in if q \<le> 1 / 2 then mix orange yellow (2 * q) else mix yellow green (2 * q - 1))"

definition position :: "real \<Rightarrow> real \<Rightarrow> real" where
  \<comment> \<open>The position as the spec words it:
      \<open>p = (hours - 20) / (max(maxHoursInBatch, 20) - 20)\<close>, clamped to \<open>[0, 1]\<close>, and
      \<open>p = 0\<close> if the denominator is \<open>\<le> 0\<close>.\<close>
  "position hrs max_hours =
     (if max max_hours 20 - 20 \<le> 0 then 0
      else clamp01 ((hrs - 20) / (max max_hours 20 - 20)))"

definition bar_colors :: "summary_row list \<Rightarrow> color list" where
  "bar_colors s =
     (let hours_data = map Total_Hours_Worked s;
          current_max_hours = (if s = [] then 40 else Max (set hours_data))
      in map (\<lambda>h. get_bar_color gradient h current_max_hours) hours_data)"

subsection \<open>What one file adds to the run\<close>

text \<open>
  The two halves of \<open>process_file\<close>: the frames a file appends to \<open>all_data\<close> and the
  messages it puts on the page.
\<close>

definition contributed :: "pylib \<Rightarrow> upload \<Rightarrow> labor_row list list" where
  "contributed L f =
     (case read_excel f of
        None \<Rightarrow> []
      | Some df \<Rightarrow> if missing_cols df \<noteq> [] then [] else [clean L df])"

definition reported :: "upload \<Rightarrow> message list" where
  "reported f =
     (case read_excel f of
        None \<Rightarrow> [Failed (file_name f)]
      | Some df \<Rightarrow> if missing_cols df \<noteq> [] then [Skipping (file_name f) (missing_cols df)] else [])"

text \<open>Two small workbooks: one without the work-order column, one complete.\<close>

definition bad_sheet :: dataframe where
  "bad_sheet = \<lparr> columns = [TECHNICIAN_COL, HOURS_COL], rows = [[Text ''ANISH'', Numeric 3]] \<rparr>"

definition good_sheet :: dataframe where
  "good_sheet =
     \<lparr> columns = [TECHNICIAN_COL, WORK_ORDER_COL, HOURS_COL],
       rows = [[Text '' anish'', Text ''WO1'', Numeric 3]] \<rparr>"

subsection \<open>The merged summary, row by row\<close>

text \<open>
  What the left join, the two \<open>fillna\<close> and the rounding make of one roster technician,
  given the groups: the technician's group if there is one, zeros otherwise.
\<close>

definition aggregated_hours :: "(string \<times> nat \<times> real) list \<Rightarrow> string \<Rightarrow> real" where
  "aggregated_hours g t = (case map_of g t of None \<Rightarrow> 0 | Some e \<Rightarrow> snd e)"

definition joined :: "(string \<times> nat \<times> real) list \<Rightarrow> string \<Rightarrow> summary_row" where
  "joined g t =
     \<lparr> Technician = t,
       Work_Orders_Completed = (case map_of g t of None \<Rightarrow> 0 | Some e \<Rightarrow> int (fst e)),
       Total_Hours_Worked = round2 (case map_of g t of None \<Rightarrow> 0 | Some e \<Rightarrow> snd e) \<rparr>"

subsection \<open>Sample data\<close>

definition two_frames :: "labor_row list list" where
  "two_frames =
     [[\<lparr>technician = ''ANISH'', work_order = Text ''WO1'', hours = 1\<rparr>,
       \<lparr>technician = ''ANISH'', work_order = Text ''WO1'', hours = 12\<rparr>,
       \<lparr>technician = ''ROHIT'', work_order = Text ''WO2'', hours = 2\<rparr>],
      [\<lparr>technician = ''ANISH'', work_order = Text ''WO1'', hours = 3\<rparr>,
       \<lparr>technician = ''ANISH'', work_order = Null, hours = 4\<rparr>,
       \<lparr>technician = ''ANISH'', work_order = Text ''WO7'', hours = 5\<rparr>]]"

definition null_wo_sheet :: dataframe where
  "null_wo_sheet =
     \<lparr> columns = [TECHNICIAN_COL, WORK_ORDER_COL, HOURS_COL],
       rows = [[Text ''anish'', Text ''WO1'', Numeric 3],
               [Text ''Anish '', Null, Numeric (1 / 2)],
               [Null, Text ''WO2'', Numeric 1],
               [Text ''rohit'', Text ''WO3'', Null]] \<rparr>"

definition negative_sheet :: dataframe where
  "negative_sheet =
     \<lparr> columns = [TECHNICIAN_COL, WORK_ORDER_COL, HOURS_COL],
       rows = [[Text ''anish'', Text ''WO1'', Numeric (- 5)]] \<rparr>"

definition small_groups :: "(string \<times> nat \<times> real) list" where
  "small_groups = [(''ANISH'', 2, 2501 / 200), (''ZED'', 4, 99)]"

text \<open>
  Two groups whose sums are doubles: \<open>12.4990234375\<close>, and the double nearest to
  \<open>2.675\<close>, which lies below it.
\<close>

definition double_groups :: "(string \<times> nat \<times> real) list" where
  "double_groups =
     [(''ANISH'', 2, 12799 / 1024), (''ROHIT'', 1, 3011782250804019 / 2 ^ 50)]"

section \<open>Rounding to a double\<close>

lemma rint_near: "\<bar>of_int (rint y) - y\<bar> \<le> 1 / 2"
proof -
  have "of_int \<lfloor>y\<rfloor> \<le> y" "y < of_int \<lfloor>y\<rfloor> + 1" by linarith+
  then show ?thesis by (auto simp: rint_def Let_def)
qed

lemma rint_nonneg: "0 \<le> y \<Longrightarrow> 0 \<le> rint y"
  by (auto simp: rint_def Let_def)

lemma expo_bounds:
  assumes "x \<noteq> 0"
  shows "2 powi expo x \<le> \<bar>x\<bar> \<and> \<bar>x\<bar> < 2 powi (expo x + 1)"
proof -
  let ?a = "\<bar>x\<bar>"
  have pos: "0 < ?a" using assms by simp
  show ?thesis
  proof (cases "1 \<le> ?a")
    case True
    let ?n = "\<lfloor>?a\<rfloor>"
    have n: "0 < ?n" using True by linarith
    then have b1: "1 \<le> bitlen ?n" by (auto simp: bitlen_alt_def)
    from bitlen_bounds [OF n]
    have lo: "(2::int) ^ nat (bitlen ?n - 1) \<le> ?n" and hi: "?n < 2 ^ nat (bitlen ?n)" by simp_all
    have e: "expo x = bitlen ?n - 1" using True by (simp add: expo_def Let_def)
    have "(2::real) powi (bitlen ?n - 1) = 2 ^ nat (bitlen ?n - 1)"
      using b1 by (simp add: power_int_def)
    also have "\<dots> = of_int (2 ^ nat (bitlen ?n - 1))" by simp
    also have "\<dots> \<le> of_int ?n" using lo by (simp only: of_int_le_iff)
    also have "\<dots> \<le> ?a" by linarith
    finally have lower: "2 powi expo x \<le> \<bar>x\<bar>" by (simp add: e)
    have "?n + 1 \<le> 2 ^ nat (bitlen ?n)" using hi by simp
    then have "of_int (?n + 1) \<le> (of_int (2 ^ nat (bitlen ?n)) :: real)"
      by (simp only: of_int_le_iff)
    then have "of_int ?n + 1 \<le> (2::real) ^ nat (bitlen ?n)" by simp
    moreover have "?a < of_int ?n + 1" by linarith
    ultimately have "?a < 2 ^ nat (bitlen ?n)" by linarith
    also have "(2::real) ^ nat (bitlen ?n) = 2 powi (bitlen ?n)"
      using b1 by (simp add: power_int_def)
    finally have "\<bar>x\<bar> < 2 powi (expo x + 1)" by (simp add: e)
    with lower show ?thesis by simp
  next
    case False
    let ?y = "1 / ?a"
    let ?m = "\<lceil>?y\<rceil> - 1"
    have y1: "1 < ?y" using False pos by simp
    then have m: "0 < ?m" by linarith
    then have b1: "1 \<le> bitlen ?m" by (auto simp: bitlen_alt_def)
    from bitlen_bounds [OF m]
    have lo: "(2::int) ^ nat (bitlen ?m - 1) \<le> ?m" and hi: "?m < 2 ^ nat (bitlen ?m)" by simp_all
    have e: "expo x = - bitlen ?m" using False by (simp add: expo_def Let_def)
    have my: "of_int ?m < ?y" "?y \<le> of_int ?m + 1" by linarith+
    have "?m + 1 \<le> 2 ^ nat (bitlen ?m)" using hi by simp
    then have "of_int (?m + 1) \<le> (of_int (2 ^ nat (bitlen ?m)) :: real)"
      by (simp only: of_int_le_iff)
    then have "of_int ?m + 1 \<le> (2::real) ^ nat (bitlen ?m)" by simp
    with my(2) have yle: "?y \<le> 2 ^ nat (bitlen ?m)" by linarith
    have "1 / 2 ^ nat (bitlen ?m) \<le> ?a"
    proof -
      have "1 \<le> ?a * 2 ^ nat (bitlen ?m)"
        using yle pos by (simp add: field_simps)
      then show ?thesis by (simp add: field_simps)
    qed
    moreover have "(2::real) powi (- bitlen ?m) = 1 / 2 ^ nat (bitlen ?m)"
      using b1 by (simp add: power_int_def field_simps)
    ultimately have lower: "2 powi expo x \<le> \<bar>x\<bar>" by (simp add: e)
    have "(of_int (2 ^ nat (bitlen ?m - 1)) :: real) \<le> of_int ?m"
      using lo by (simp only: of_int_le_iff)
    then have "(2::real) ^ nat (bitlen ?m - 1) \<le> of_int ?m" by simp
    with my(1) have ylt: "2 ^ nat (bitlen ?m - 1) < ?y" by linarith
    have "?a < 1 / 2 ^ nat (bitlen ?m - 1)"
    proof -
      have "?a * 2 ^ nat (bitlen ?m - 1) < 1"
        using ylt pos by (simp add: field_simps)
      then show ?thesis by (simp add: field_simps)
    qed
    moreover have "(2::real) powi (- bitlen ?m + 1) = 1 / 2 ^ nat (bitlen ?m - 1)"
    proof -
      have "- bitlen ?m + 1 = - (bitlen ?m - 1)" by simp
      then have "(2::real) powi (- bitlen ?m + 1) = 2 powi (- (bitlen ?m - 1))" by simp
      also have "\<dots> = 1 / 2 powi (bitlen ?m - 1)" by (rule power_int_minus_divide)
      also have "(2::real) powi (bitlen ?m - 1) = 2 ^ nat (bitlen ?m - 1)"
        using b1 by (simp add: power_int_def)
      finally show ?thesis .
    qed
    ultimately have "\<bar>x\<bar> < 2 powi (expo x + 1)" by (simp add: e)
    with lower show ?thesis by simp
  qed
qed

lemma fl_zero: "fl 0 = 0"
  by (simp add: fl_def)

lemma fl_nonneg: "0 \<le> x \<Longrightarrow> 0 \<le> fl x"
  by (simp add: fl_def Let_def rint_nonneg)

lemma fl_near: "\<bar>fl x - x\<bar> \<le> \<bar>x\<bar> / 2 ^ 53"
proof (cases "x = 0")
  case True
  then show ?thesis by (simp add: fl_def)
next
  case False
  define q :: real where "q = 2 powi (expo x - 52)"
  have q: "0 < q" by (simp add: q_def)
  have f: "fl x = of_int (rint (x / q)) * q"
    using False by (simp add: fl_def Let_def q_def)
  have "fl x - x = (of_int (rint (x / q)) - x / q) * q"
    using q by (simp add: f field_simps)
  then have "\<bar>fl x - x\<bar> = \<bar>of_int (rint (x / q)) - x / q\<bar> * q"
    using q by (simp add: abs_mult)
  also have "\<dots> \<le> 1 / 2 * q"
    using rint_near [of "x / q"] q by (intro mult_right_mono) simp_all
  also have "1 / 2 * q = 2 powi expo x / 2 ^ 53"
  proof -
    have "(2::real) powi (expo x - 52) = 2 powi expo x / 2 powi 52"
      by (simp add: power_int_diff)
    then show ?thesis by (simp add: q_def)
  qed
  also have "\<dots> \<le> \<bar>x\<bar> / 2 ^ 53"
    using expo_bounds [OF False] by (simp add: divide_right_mono)
  finally show ?thesis .
qed

lemma fl_neg:
  assumes "x < 0"
  shows "fl x < 0"
proof -
  have "\<bar>x\<bar> / 2 ^ 53 < \<bar>x\<bar>" using assms by simp
  with fl_near [of x] assms show ?thesis by linarith
qed

section \<open>Properties of \<open>time_to_hours\<close>\<close>



text \<open>On a cell, \<open>time_to_hours_py\<close> returns what \<open>time_to_hours\<close> does.\<close>

lemma time_to_hours_py_cell:
  "time_to_hours_py (lib_py L) (value_of c) = Inr (Fin (time_to_hours L c))"
  by (cases c) (auto simp: lib_py_def split: option.splits)

text \<open>
  Claim C1, as stated: for every input the function returns without raising, and the
  result is a finite float that is \<open>\<ge> 0\<close>, negative inputs degrading to \<open>0.0\<close>. An
  integer of 401 digits makes \<open>float(t)\<close> raise; the float \<open>inf\<close> is returned as it is;
  a string that parses to \<open>NaT\<close> gives \<open>nan\<close>; and the number \<open>-5\<close>, outside
  \<open>[0, 1]\<close>, is returned unchanged.
\<close>

theorem time_to_hours_py_counterexample:
  "time_to_hours_py sample_lib_py (PyInt (10 ^ 400)) = Inl OverflowError
   \<and> time_to_hours_py sample_lib_py (PyFloat PosInf) = Inr PosInf
   \<and> time_to_hours_py sample_lib_py (PyOther ''NaT'') = Inr NaN
   \<and> time_to_hours_py sample_lib_py (PyInt (- 5)) = Inr (Fin (- 5))"
proof -
  have "fl (- 5) = - 5" by code_simp
  then show ?thesis by (simp add: float_of_int_def sample_lib_py_def)
qed

text \<open>
  Claim C1, amended. \<open>time_to_hours\<close> returns without raising for every input except
  an integer too large for a double, on which \<open>float(t)\<close> raises \<open>OverflowError\<close>.
  The result is \<open>0.0\<close> for a missing value, and finite and \<open>\<ge> 0\<close> for a timestamp, a
  clock time, a duration of non-negative length and a finite non-negative number. A
  negative number is returned unchanged (an integer as the double nearest to it) and a
  duration of negative length gives negative hours: neither degrades to \<open>0.0\<close>. An
  infinite float is returned unchanged. For text
  the result is what the first parser that accepts it gives, \<open>nan\<close> and \<open>inf\<close>
  included, and \<open>0.0\<close>, by the final fallback, when no parser accepts it.
\<close>

theorem time_to_hours_py_outcomes:
  "(isl (time_to_hours_py L v) \<longleftrightarrow> (\<exists>i. v = PyInt i \<and> 2 ^ 1024 - 2 ^ 970 \<le> \<bar>i\<bar>))
   \<and> (2 ^ 1024 - 2 ^ 970 \<le> \<bar>i\<bar> \<longrightarrow> time_to_hours_py L (PyInt i) = Inl OverflowError)
   \<and> time_to_hours_py L PyNone = Inr (Fin 0)
   \<and> time_to_hours_py L (PyFloat NaN) = Inr (Fin 0)
   \<and> time_to_hours_py L (PyTimestamp h m s) = Inr (Fin (hour_of_day h m s))
   \<and> time_to_hours_py L (PyTime h m s) = Inr (Fin (hour_of_day h m s))
   \<and> 0 \<le> hour_of_day h m s
   \<and> time_to_hours_py L (PyTimedelta secs) = Inr (Fin (secs / 3600))
   \<and> (0 \<le> secs / 3600 \<longleftrightarrow> 0 \<le> secs)
   \<and> (0 \<le> x \<longrightarrow> (\<exists>y. time_to_hours_py L (PyFloat (Fin x)) = Inr (Fin y) \<and> 0 \<le> y))
   \<and> (x < 0 \<longrightarrow> time_to_hours_py L (PyFloat (Fin x)) = Inr (Fin x))
   \<and> (0 \<le> i \<and> i < 2 ^ 1024 - 2 ^ 970
        \<longrightarrow> (\<exists>y. time_to_hours_py L (PyInt i) = Inr (Fin y) \<and> 0 \<le> y))
   \<and> (i < 0 \<and> - (2 ^ 1024 - 2 ^ 970) < i
        \<longrightarrow> time_to_hours_py L (PyInt i) = Inr (Fin (fl (of_int i))) \<and> fl (of_int i) < 0)
   \<and> time_to_hours_py L (PyFloat PosInf) = Inr PosInf
   \<and> time_to_hours_py L (PyFloat NegInf) = Inr NegInf
   \<and> (to_timedelta_py L t = Some r \<longrightarrow> time_to_hours_py L (PyOther t) = Inr (per_3600 r))
   \<and> (to_timedelta_py L t = None \<and> to_datetime_py L t = Some dt
        \<longrightarrow> time_to_hours_py L (PyOther t) = Inr (hour_of_stamp dt))
   \<and> (to_timedelta_py L t = None \<and> to_datetime_py L t = None \<and> float_py L t = Some r
        \<longrightarrow> time_to_hours_py L (PyOther t) = Inr r)
   \<and> (to_timedelta_py L t = None \<and> to_datetime_py L t = None \<and> float_py L t = None
        \<longrightarrow> time_to_hours_py L (PyOther t) = Inr (Fin 0))"
proof -
  have raises: "isl (time_to_hours_py L v) \<longleftrightarrow> (\<exists>i. v = PyInt i \<and> 2 ^ 1024 - 2 ^ 970 \<le> \<bar>i\<bar>)"
  proof (cases v)
    case (PyFloat f)
    then show ?thesis by (cases f) simp_all
  next
    case (PyInt j)
    then show ?thesis by (simp add: float_of_int_def)
  qed simp_all
  have nn: "0 \<le> fl (of_int i)" if "0 \<le> i"
    using that by (simp add: fl_nonneg)
  have ng: "fl (of_int i) < 0" if "i < 0"
    using that fl_neg [of "of_int i"] by simp
  have over: "2 ^ 1024 - 2 ^ 970 \<le> \<bar>i\<bar> \<longrightarrow> time_to_hours_py L (PyInt i) = Inl OverflowError"
    by (simp add: float_of_int_def)
  have ints: "0 \<le> i \<and> i < 2 ^ 1024 - 2 ^ 970
        \<longrightarrow> (\<exists>y. time_to_hours_py L (PyInt i) = Inr (Fin y) \<and> 0 \<le> y)"
    using nn by (auto simp: float_of_int_def)
  have negs: "i < 0 \<and> - (2 ^ 1024 - 2 ^ 970) < i
        \<longrightarrow> time_to_hours_py L (PyInt i) = Inr (Fin (fl (of_int i))) \<and> fl (of_int i) < 0"
  proof (intro impI)
    assume a: "i < 0 \<and> - (2 ^ 1024 - 2 ^ 970) < i"
    then have "\<bar>i\<bar> < 2 ^ 1024 - 2 ^ 970" by linarith
    moreover have "\<not> 0 \<le> fl (of_int i)" using ng a by simp
    ultimately show "time_to_hours_py L (PyInt i) = Inr (Fin (fl (of_int i))) \<and> fl (of_int i) < 0"
      using ng a by (simp add: float_of_int_def)
  qed
  have floats: "0 \<le> x \<longrightarrow> (\<exists>y. time_to_hours_py L (PyFloat (Fin x)) = Inr (Fin y) \<and> 0 \<le> y)"
    "x < 0 \<longrightarrow> time_to_hours_py L (PyFloat (Fin x)) = Inr (Fin x)"
    by auto
  have clock: "0 \<le> hour_of_day h m s"
    by (simp add: hour_of_day_def)
  have dur: "0 \<le> secs / 3600 \<longleftrightarrow> 0 \<le> secs"
    by (simp add: zero_le_divide_iff)
  show ?thesis
    using raises over ints negs floats clock dur by simp
qed

theorem time_to_hours_py_outcomes_witness:
  "\<not> isl (time_to_hours_py sample_lib_py (PyOther ''not a time''))
   \<and> (2::int) ^ 1024 - 2 ^ 970 \<le> \<bar>2 ^ 1024\<bar>
   \<and> time_to_hours_py sample_lib_py (PyInt (2 ^ 1024)) = Inl OverflowError
   \<and> time_to_hours_py sample_lib_py (PyTimestamp 14 15 0) = Inr (Fin (57 / 4))
   \<and> time_to_hours_py sample_lib_py (PyTimedelta (- 60)) = Inr (Fin (- 1 / 60))
   \<and> (0::real) \<le> 1 / 2 \<and> time_to_hours_py sample_lib_py (PyFloat (Fin (1 / 2))) = Inr (Fin 12)
   \<and> (- 5 :: real) < 0 \<and> time_to_hours_py sample_lib_py (PyFloat (Fin (- 5))) = Inr (Fin (- 5))
   \<and> (0::int) \<le> 40 \<and> (40::int) < 2 ^ 1024 - 2 ^ 970
   \<and> time_to_hours_py sample_lib_py (PyInt 40) = Inr (Fin 40)
   \<and> (- 5 :: int) < 0 \<and> - (2 ^ 1024 - 2 ^ 970) < (- 5 :: int)
   \<and> time_to_hours_py sample_lib_py (PyInt (- 5)) = Inr (Fin (- 5))
   \<and> to_timedelta_py sample_lib_py ''2024-03-01 14:15:00'' = None
   \<and> to_datetime_py sample_lib_py ''2024-03-01 14:15:00'' = Some (Stamp 14 15 0)
   \<and> time_to_hours_py sample_lib_py (PyOther ''2024-03-01 14:15:00'') = Inr (Fin (57 / 4))
   \<and> to_timedelta_py sample_lib_py ''NaT'' = Some NaN
   \<and> time_to_hours_py sample_lib_py (PyOther ''NaT'') = Inr NaN
   \<and> to_timedelta_py sample_lib_py ''inf'' = None \<and> to_datetime_py sample_lib_py ''inf'' = None
   \<and> float_py sample_lib_py ''inf'' = Some PosInf
   \<and> time_to_hours_py sample_lib_py (PyOther ''inf'') = Inr PosInf
   \<and> to_timedelta_py sample_lib_py ''not a time'' = None
   \<and> to_datetime_py sample_lib_py ''not a time'' = None
   \<and> float_py sample_lib_py ''not a time'' = None
   \<and> time_to_hours_py sample_lib_py (PyOther ''not a time'') = Inr (Fin 0)"
proof -
  have f: "fl 40 = 40" "fl (- 5) = - 5" by code_simp+
  show ?thesis
    using time_to_hours_py_outcomes
            [where L = sample_lib_py and v = "PyOther ''not a time''" and i = "2 ^ 1024"
               and h = 14 and m = 15 and s = 0 and secs = "- 60" and x = "1 / 2"
               and t = "''NaT''" and r = NaN]
          time_to_hours_py_outcomes
            [where L = sample_lib_py and v = "PyOther ''not a time''" and i = 40
               and h = 14 and m = 15 and s = 0 and secs = "- 60" and x = "- 5"
               and t = "''inf''" and r = PosInf]
          time_to_hours_py_outcomes
            [where L = sample_lib_py and v = "PyOther ''not a time''" and i = "- 5"
               and h = 14 and m = 15 and s = 0 and secs = "- 60" and x = "- 5"
               and t = "''2024-03-01 14:15:00''" and dt = "Stamp 14 15 0"]
          time_to_hours_py_outcomes
            [where L = sample_lib_py and v = "PyOther ''not a time''" and i = 40
               and h = 14 and m = 15 and s = 0 and secs = "- 60" and x = "- 5"
               and t = "''not a time''"]
    by (simp add: sample_lib_py_def hour_of_day_def float_of_int_def f)
qed

text \<open>
  Claim C6. For text, the duration parse is tried first; where it fails, the date-time parse
  is tried and the result is \<open>hour + minute/60 + second/3600\<close>; where that fails too,
  the text is parsed as a bare number; where all three fail the result is \<open>0.0\<close> and
  nothing is raised. In particular \<open>"not a time"\<close>, which no parser accepts, gives \<open>0.0\<close>.
\<close>

theorem time_to_hours_text_cascade:
  "(to_timedelta L t = Some secs \<longrightarrow> time_to_hours L (Text t) = secs / 3600)
   \<and> (to_timedelta L t = None \<and> to_datetime L t = Some (h, m, s)
        \<longrightarrow> time_to_hours L (Text t) = real h + real m / 60 + real s / 3600)
   \<and> (to_timedelta L t = None \<and> to_datetime L t = None \<and> float_of_str L t = Some v
        \<longrightarrow> time_to_hours L (Text t) = v)
   \<and> (to_timedelta L t = None \<and> to_datetime L t = None \<and> float_of_str L t = None
        \<longrightarrow> time_to_hours L (Text t) = 0)
   \<and> (to_timedelta L ''not a time'' = None \<and> to_datetime L ''not a time'' = None
        \<and> float_of_str L ''not a time'' = None
        \<longrightarrow> time_to_hours L (Text ''not a time'') = 0)"
  by (simp add: hour_of_day_def)

theorem time_to_hours_text_cascade_witness:
  "to_timedelta sample_lib ''01:30:00'' = Some 5400
   \<and> time_to_hours sample_lib (Text ''01:30:00'') = 3 / 2
   \<and> to_timedelta sample_lib ''2024-03-01 14:15:00'' = None
   \<and> to_datetime sample_lib ''2024-03-01 14:15:00'' = Some (14, 15, 0)
   \<and> time_to_hours sample_lib (Text ''2024-03-01 14:15:00'') = 57 / 4
   \<and> to_timedelta sample_lib ''1_000'' = None \<and> to_datetime sample_lib ''1_000'' = None
   \<and> float_of_str sample_lib ''1_000'' = Some 1000
   \<and> time_to_hours sample_lib (Text ''1_000'') = 1000
   \<and> to_timedelta sample_lib ''not a time'' = None
   \<and> to_datetime sample_lib ''not a time'' = None
   \<and> float_of_str sample_lib ''not a time'' = None
   \<and> time_to_hours sample_lib (Text ''not a time'') = 0"
  using time_to_hours_text_cascade [of sample_lib "''01:30:00''" 5400]
        time_to_hours_text_cascade [of sample_lib "''2024-03-01 14:15:00''" _ 14 15 0]
        time_to_hours_text_cascade [of sample_lib "''1_000''" _ _ _ _ 1000]
        time_to_hours_text_cascade [of sample_lib "''not a time''"]
  by (simp add: sample_lib_def)

section \<open>The per-file loop\<close>

lemma process_file_split:
  "process_file L st f =
     \<lparr> all_data = all_data st @ contributed L f, shown = shown st @ reported f \<rparr>"
  by (simp add: process_file_def contributed_def reported_def split: option.split)

lemma foldl_process_file:
  "foldl (process_file L) st fs =
     \<lparr> all_data = all_data st @ concat (map (contributed L) fs),
       shown = shown st @ concat (map reported fs) \<rparr>"
proof (induction fs arbitrary: st)
  case Nil
  show ?case by simp
next
  case (Cons f fs)
  have "foldl (process_file L) st (f # fs) = foldl (process_file L) (process_file L st f) fs"
    by simp
  also have "\<dots> =
     \<lparr> all_data = all_data (process_file L st f) @ concat (map (contributed L) fs),
       shown = shown (process_file L st f) @ concat (map reported fs) \<rparr>"
    by (rule Cons.IH)
  also have "\<dots> =
     \<lparr> all_data = all_data st @ concat (map (contributed L) (f # fs)),
       shown = shown st @ concat (map reported (f # fs)) \<rparr>"
    by (simp add: process_file_split)
  finally show ?case .
qed

lemma process_files_split:
  "process_files L fs =
     \<lparr> all_data = concat (map (contributed L) fs), shown = concat (map reported fs) \<rparr>"
  by (simp add: process_files_def foldl_process_file)

text \<open>
  Claim C9. If any of the three required columns (technician, work order, duration) is
  absent from a workbook, the file is rejected as a whole: the message shown names exactly
  the missing columns, the run gets no rows from the file, and the other files of the
  batch are processed as if the file had not been uploaded.
\<close>

theorem missing_columns_skip_file:
  assumes "read_excel f = Some df"
    and "\<not> set [TECHNICIAN_COL, WORK_ORDER_COL, HOURS_COL] \<subseteq> set (columns df)"
  shows "set (missing_cols df) = set [TECHNICIAN_COL, WORK_ORDER_COL, HOURS_COL] - set (columns df)
    \<and> missing_cols df \<noteq> []
    \<and> process_file L st f = st\<lparr>shown := shown st @ [Skipping (file_name f) (missing_cols df)]\<rparr>
    \<and> all_data (process_files L (before @ f # after)) = all_data (process_files L (before @ after))
    \<and> shown (process_files L (before @ f # after)) =
        shown (process_files L before) @ [Skipping (file_name f) (missing_cols df)]
          @ shown (process_files L after)"
proof -
  have names: "set (missing_cols df) = set [TECHNICIAN_COL, WORK_ORDER_COL, HOURS_COL] - set (columns df)"
    by (auto simp: missing_cols_def)
  have ne: "missing_cols df \<noteq> []"
    using assms(2) names by (metis Diff_eq_empty_iff set_empty)
  have c: "contributed L f = []" and r: "reported f = [Skipping (file_name f) (missing_cols df)]"
    using assms(1) ne by (simp_all add: contributed_def reported_def)
  have step: "process_file L st f = st\<lparr>shown := shown st @ [Skipping (file_name f) (missing_cols df)]\<rparr>"
    using assms(1) ne by (simp add: process_file_def)
  show ?thesis
    using names ne step by (simp add: process_files_split c r)
qed

theorem missing_columns_skip_file_witness:
  "read_excel \<lparr>file_name = ''b.xls'', read_excel = Some bad_sheet\<rparr> = Some bad_sheet
   \<and> \<not> set [TECHNICIAN_COL, WORK_ORDER_COL, HOURS_COL] \<subseteq> set (columns bad_sheet)
   \<and> missing_cols bad_sheet = [WORK_ORDER_COL]
   \<and> process_files sample_lib
        [\<lparr>file_name = ''b.xls'', read_excel = Some bad_sheet\<rparr>,
         \<lparr>file_name = ''g.xlsx'', read_excel = Some good_sheet\<rparr>]
      = \<lparr> all_data = [[\<lparr>technician = ''ANISH'', work_order = Text ''WO1'', hours = 3\<rparr>]],
          shown = [Skipping ''b.xls'' [WORK_ORDER_COL]] \<rparr>"
proof -
  let ?b = "\<lparr>file_name = ''b.xls'', read_excel = Some bad_sheet\<rparr>"
  let ?g = "\<lparr>file_name = ''g.xlsx'', read_excel = Some good_sheet\<rparr>"
  have h1: "read_excel ?b = Some bad_sheet" by simp
  have h2: "\<not> set [TECHNICIAN_COL, WORK_ORDER_COL, HOURS_COL] \<subseteq> set (columns bad_sheet)"
    by (simp add: bad_sheet_def TECHNICIAN_COL_def WORK_ORDER_COL_def HOURS_COL_def)
  have m: "missing_cols bad_sheet = [WORK_ORDER_COL]"
    by (simp add: missing_cols_def bad_sheet_def TECHNICIAN_COL_def WORK_ORDER_COL_def HOURS_COL_def)
  have g: "process_files sample_lib [?g]
      = \<lparr> all_data = [[\<lparr>technician = ''ANISH'', work_order = Text ''WO1'', hours = 3\<rparr>]], shown = [] \<rparr>"
    by code_simp
  have e: "process_files sample_lib [] = \<lparr> all_data = [], shown = [] \<rparr>"
    by (simp add: process_files_def)
  note t = missing_columns_skip_file [OF h1 h2, of sample_lib _ "[]" "[?g]"]
  have "process_files sample_lib [?b, ?g]
      = \<lparr> all_data = all_data (process_files sample_lib [?b, ?g]),
          shown = shown (process_files sample_lib [?b, ?g]) \<rparr>"
    by simp
  also have "\<dots> = \<lparr> all_data = [[\<lparr>technician = ''ANISH'', work_order = Text ''WO1'', hours = 3\<rparr>]],
          shown = [Skipping ''b.xls'' [WORK_ORDER_COL]] \<rparr>"
    using t by (simp add: g e m)
  finally show ?thesis using h1 h2 m by simp
qed

section \<open>Bar colours\<close>

text \<open>
  Claim C8. If \<open>hours < 20\<close> the colour is the fixed red \<open>#FF0000\<close>. Otherwise the
  colour is the gradient at the position
  \<open>p = (hours - 20) / (max(maxHoursInBatch, 20) - 20)\<close> clamped to \<open>[0, 1]\<close>, with
  \<open>p = 0\<close> where the denominator is \<open>\<le> 0\<close>; the gradient runs piecewise-linearly from
  orange over yellow to green. In particular \<open>19.99\<close> is in the red band whatever the
  maximum, and hours \<open>20.0\<close> with maximum \<open>20.0\<close> give exactly orange.
\<close>

theorem get_bar_color_bands:
  "(hrs < 20 \<longrightarrow> get_bar_color gradient hrs max_hours = Hex ''#FF0000'')
   \<and> (\<not> hrs < 20 \<longrightarrow>
        get_bar_color gradient hrs max_hours =
          (let p = position hrs max_hours
           in if p \<le> 1 / 2 then mix orange yellow (2 * p) else mix yellow green (2 * p - 1)))
   \<and> 0 \<le> position hrs max_hours \<and> position hrs max_hours \<le> 1
   \<and> get_bar_color gradient (1999 / 100) max_hours = Hex ''#FF0000''
   \<and> get_bar_color gradient 20 20 = mix orange yellow 0
   \<and> mix orange yellow 0 = RGBA 1 (165 / 255) 0 1"
proof -
  have cl: "clamp01 (clamp01 x) = clamp01 x" "0 \<le> clamp01 x" "clamp01 x \<le> 1" "clamp01 0 = 0" for x
    by (simp_all add: clamp01_def)
  have a: "\<not> hrs < 20 \<Longrightarrow> get_bar_color gradient hrs max_hours = gradient (position hrs max_hours)"
    by (auto simp: get_bar_color_def position_def gradient_def Let_def cl)
  have b: "gradient (position hrs max_hours) =
          (let p = position hrs max_hours
           in if p \<le> 1 / 2 then mix orange yellow (2 * p) else mix yellow green (2 * p - 1))"
    by (simp add: gradient_def position_def Let_def cl)
  have c: "get_bar_color gradient 20 20 = mix orange yellow 0"
    by (simp add: get_bar_color_def gradient_def cl)
  show ?thesis
    using a b c by (simp add: get_bar_color_def position_def cl mix_def orange_def yellow_def)
qed

theorem get_bar_color_bands_witness:
  "(10::real) < 20 \<and> get_bar_color gradient 10 40 = Hex ''#FF0000''
   \<and> \<not> (30::real) < 20 \<and> position 30 40 = 1 / 2 \<and> get_bar_color gradient 30 40 = RGBA 1 1 0 1
   \<and> \<not> (40::real) < 20 \<and> position 40 40 = 1 \<and> get_bar_color gradient 40 40 = RGBA 0 (128 / 255) 0 1
   \<and> position 50 40 = 1 \<and> get_bar_color gradient 50 40 = RGBA 0 (128 / 255) 0 1
   \<and> position 25 15 = 0 \<and> get_bar_color gradient 25 15 = RGBA 1 (165 / 255) 0 1"
proof -
  have p: "position 30 40 = 1 / 2" "position 40 40 = 1" "position 50 40 = 1" "position 25 15 = 0"
    by (simp_all add: position_def clamp01_def)
  show ?thesis
    using get_bar_color_bands [of 10 40] get_bar_color_bands [of 30 40]
      get_bar_color_bands [of 40 40] get_bar_color_bands [of 50 40] get_bar_color_bands [of 25 15]
    by (simp add: p mix_def orange_def yellow_def green_def)
qed

section \<open>Grouping\<close>

lemma map_of_grouped:
  "map_of (grouped rs) t =
     (if t \<in> technician ` set rs
      then Some (nunique (map work_order (filter (\<lambda>r. technician r = t) rs)),
                 sum_list (map hours (filter (\<lambda>r. technician r = t) rs)))
      else None)"
  by (simp add: grouped_def Let_def map_of_map_restrict restrict_map_def)

lemma keys_grouped: "map fst (grouped rs) = sort (remdups (map technician rs))"
  by (simp add: grouped_def Let_def comp_def)

lemma distinct_keys_grouped: "distinct (map fst (grouped rs))"
  by (simp add: keys_grouped)

lemma nunique_card: "nunique cs = card {w. w \<noteq> Null \<and> w \<in> set cs}"
proof -
  have "set (filter (\<lambda>c. c \<noteq> Null) cs) = {w. w \<noteq> Null \<and> w \<in> set cs}" by auto
  then show ?thesis by (simp add: nunique_def length_remdups_card_conv)
qed

lemma nunique_Null: "nunique (cs @ Null # ds) = nunique (cs @ ds)"
  by (simp add: nunique_def)

lemma sum_hours_filter:
  "sum_list (map hours (filter P rs)) = (\<Sum>r\<leftarrow>rs. if P r then hours r else 0)"
  by (induction rs) simp_all

lemma sum_list_map_concat:
  fixes g :: "'a \<Rightarrow> real"
  shows "sum_list (map g (concat xss)) = (\<Sum>xs\<leftarrow>xss. sum_list (map g xs))"
  by (induction xss) simp_all

text \<open>
  Claim C3. The rows of all ingested files are grouped by technician. For each technician,
  the number of work orders is the number of distinct work-order identifiers over all of
  that technician's rows, in whichever file they are (a work order that repeats, in one
  file or across files, counts once), and the total is the sum of the hours of all of that
  technician's rows, a repeated work order adding its hours every time.
\<close>

theorem grouped_counts_and_sums:
  "distinct (map fst (grouped (concat frames)))
   \<and> set (map fst (grouped (concat frames))) = technician ` (\<Union>f\<in>set frames. set f)
   \<and> (t \<in> technician ` (\<Union>f\<in>set frames. set f) \<longrightarrow>
        map_of (grouped (concat frames)) t =
          Some (card {w. w \<noteq> Null \<and> (\<exists>f\<in>set frames. \<exists>r\<in>set f. technician r = t \<and> work_order r = w)},
                (\<Sum>f\<leftarrow>frames. \<Sum>r\<leftarrow>f. if technician r = t then hours r else 0)))"
proof -
  let ?rs = "concat frames"
  have s: "set ?rs = (\<Union>f\<in>set frames. set f)" by simp
  have k: "set (map fst (grouped ?rs)) = technician ` (\<Union>f\<in>set frames. set f)"
    by (simp add: keys_grouped)
  have c: "{w. w \<noteq> Null \<and> w \<in> set (map work_order (filter (\<lambda>r. technician r = t) ?rs))}
         = {w. w \<noteq> Null \<and> (\<exists>f\<in>set frames. \<exists>r\<in>set f. technician r = t \<and> work_order r = w)}"
    by auto
  have h: "sum_list (map hours (filter (\<lambda>r. technician r = t) ?rs))
         = (\<Sum>f\<leftarrow>frames. \<Sum>r\<leftarrow>f. if technician r = t then hours r else 0)"
    by (simp add: sum_hours_filter sum_list_map_concat)
  have m: "t \<in> technician ` (\<Union>f\<in>set frames. set f) \<Longrightarrow>
        map_of (grouped ?rs) t =
          Some (card {w. w \<noteq> Null \<and> (\<exists>f\<in>set frames. \<exists>r\<in>set f. technician r = t \<and> work_order r = w)},
                (\<Sum>f\<leftarrow>frames. \<Sum>r\<leftarrow>f. if technician r = t then hours r else 0))"
    unfolding map_of_grouped nunique_card c h using s by simp
  show ?thesis using distinct_keys_grouped k m by blast
qed

theorem grouped_counts_and_sums_witness:
  "''ANISH'' \<in> technician ` (\<Union>f\<in>set two_frames. set f)
   \<and> map_of (grouped (concat two_frames)) ''ANISH'' = Some (2, 25)
   \<and> card {w. w \<noteq> Null \<and> (\<exists>f\<in>set two_frames. \<exists>r\<in>set f. technician r = ''ANISH'' \<and> work_order r = w)} = 2
   \<and> (\<Sum>f\<leftarrow>two_frames. \<Sum>r\<leftarrow>f. if technician r = ''ANISH'' then hours r else 0) = 25"
proof -
  have a: "''ANISH'' \<in> technician ` (\<Union>f\<in>set two_frames. set f)"
    by (simp add: two_frames_def)
  have e: "map_of (grouped (concat two_frames)) ''ANISH'' = Some (2, 25)"
    by code_simp
  show ?thesis
    using grouped_counts_and_sums [of two_frames "''ANISH''"] a e by simp
qed

text \<open>
  Claim C10. Only a missing technician or a missing duration drops a row. A row whose
  work order is missing, with technician and duration present, is kept: its hours are the
  converted duration and add to the technician's total, and it leaves the technician's
  number of distinct work orders as it is without the row.
\<close>

theorem null_work_order_rows_kept:
  "clean L df =
     map (clean_row L df)
       (filter (\<lambda>r. \<not> (cell_at df TECHNICIAN_COL r = Null \<or> cell_at df HOURS_COL r = Null))
          (rows df))
   \<and> (r \<in> set (rows df) \<and> cell_at df WORK_ORDER_COL r = Null
        \<and> cell_at df TECHNICIAN_COL r \<noteq> Null \<and> cell_at df HOURS_COL r \<noteq> Null
       \<longrightarrow> clean_row L df r \<in> set (clean L df)
           \<and> work_order (clean_row L df r) = Null
           \<and> hours (clean_row L df r) = time_to_hours L (cell_at df HOURS_COL r))
   \<and> (work_order x = Null \<longrightarrow>
        map_of (grouped (pre @ x # post)) (technician x) =
          Some (case map_of (grouped (pre @ post)) (technician x) of
                  None \<Rightarrow> (0, hours x)
                | Some e \<Rightarrow> (fst e, snd e + hours x)))"
proof -
  have a: "clean L df =
     map (clean_row L df)
       (filter (\<lambda>r. \<not> (cell_at df TECHNICIAN_COL r = Null \<or> cell_at df HOURS_COL r = Null))
          (rows df))"
    by (simp add: clean_def dropna_def)
  have b: "clean_row L df r \<in> set (clean L df)"
    if "r \<in> set (rows df)" "cell_at df TECHNICIAN_COL r \<noteq> Null" "cell_at df HOURS_COL r \<noteq> Null"
    using that by (simp add: clean_def dropna_def)
  have c: "work_order (clean_row L df r) = cell_at df WORK_ORDER_COL r"
    "hours (clean_row L df r) = time_to_hours L (cell_at df HOURS_COL r)"
    by (simp_all add: clean_row_def)
  have d: "map_of (grouped (pre @ x # post)) (technician x) =
          Some (case map_of (grouped (pre @ post)) (technician x) of
                  None \<Rightarrow> (0, hours x)
                | Some e \<Rightarrow> (fst e, snd e + hours x))"
    if n: "work_order x = Null"
  proof (cases "technician x \<in> technician ` set (pre @ post)")
    case True
    then show ?thesis
      by (simp add: map_of_grouped n nunique_Null)
  next
    case False
    then have "filter (\<lambda>r. technician r = technician x) pre = []"
      "filter (\<lambda>r. technician r = technician x) post = []"
      by (auto simp: filter_empty_conv intro: rev_image_eqI)
    with False show ?thesis
      by (simp add: map_of_grouped n nunique_def)
  qed
  show ?thesis using a b c d by simp
qed

theorem null_work_order_rows_kept_witness:
  "[Text ''Anish '', Null, Numeric (1 / 2)] \<in> set (rows null_wo_sheet)
   \<and> clean sample_lib null_wo_sheet =
       [\<lparr>technician = ''ANISH'', work_order = Text ''WO1'', hours = 3\<rparr>,
        \<lparr>technician = ''ANISH'', work_order = Null, hours = 12\<rparr>]
   \<and> grouped [\<lparr>technician = ''ANISH'', work_order = Text ''WO1'', hours = 3\<rparr>] = [(''ANISH'', 1, 3)]
   \<and> map_of (grouped (clean sample_lib null_wo_sheet)) ''ANISH'' = Some (1, 15)"
proof -
  let ?r = "[Text ''Anish '', Null, Numeric (1 / 2)]"
  let ?a = "\<lparr>technician = ''ANISH'', work_order = Text ''WO1'', hours = 3\<rparr>"
  let ?x = "\<lparr>technician = ''ANISH'', work_order = Null, hours = 12\<rparr>"
  have m: "?r \<in> set (rows null_wo_sheet)" by (simp add: null_wo_sheet_def)
  have cl: "clean sample_lib null_wo_sheet = [?a, ?x]" by code_simp
  have g: "grouped [?a] = [(''ANISH'', 1, 3)]" by code_simp
  have "map_of (grouped ([?a] @ ?x # [])) (technician ?x) = Some (1, 15)"
    using null_work_order_rows_kept [of sample_lib null_wo_sheet ?r ?x "[?a]" "[]"]
    by (simp add: g)
  then show ?thesis using m cl g by simp
qed

section \<open>The merged summary\<close>

lemma filter_key_distinct:
  "distinct (map fst g) \<Longrightarrow>
     filter (\<lambda>e. fst e = t) g = (case map_of g t of None \<Rightarrow> [] | Some v \<Rightarrow> [(t, v)])"
proof (induction g)
  case Nil
  show ?case by simp
next
  case (Cons e g)
  then have d: "distinct (map fst g)" and n: "fst e \<notin> fst ` set g" by simp_all
  show ?case
  proof (cases "fst e = t")
    case True
    with n have "map_of g t = None" by (simp add: map_of_eq_None_iff)
    with True Cons.IH [OF d] show ?thesis by (cases e) simp
  next
    case False
    with Cons.IH [OF d] show ?thesis by (cases e) simp
  qed
qed

lemma filled_merge_left:
  assumes "distinct (map fst g)"
  shows "map filled (merge_left manual g) = map (joined g) manual"
proof (induction manual)
  case Nil
  show ?case by (simp add: merge_left_def)
next
  case (Cons t manual)
  have "map filled (case filter (\<lambda>e. fst e = t) g of
                       [] \<Rightarrow> [(t, None, None)]
                     | ms \<Rightarrow> map (\<lambda>e. (t, Some (fst (snd e)), Some (snd (snd e)))) ms)
        = [joined g t]"
    by (simp add: filter_key_distinct [OF assms] filled_def joined_def fillna_def
             split: option.split)
  with Cons.IH show ?case by (simp add: merge_left_def)
qed

lemma summary_joined:
  "distinct (map fst g) \<Longrightarrow>
     summary sv flag manual g = (if flag then sv (map (joined g) manual) else map (joined g) manual)"
  by (simp add: summary_def filled_merge_left)

lemma round2_zero: "round2 0 = 0"
  by (simp add: round2_def fl_def rint_def)

lemma round2_nonneg: "0 \<le> x \<Longrightarrow> 0 \<le> round2 x"
  by (simp add: round2_def fl_nonneg rint_nonneg)

lemma round2_near: "\<bar>round2 x - x\<bar> \<le> 1 / 200 + (3 * \<bar>x\<bar> + 1) / 2 ^ 53"
proof -
  define p where "p = fl (x * 100)"
  define k where "k = (of_int (rint p) :: real)"
  define t where "t = fl (k / 100)"
  have t: "round2 x = t" by (simp add: round2_def t_def k_def p_def)
  have 1: "\<bar>p - x * 100\<bar> \<le> \<bar>x\<bar> * 100 / 2 ^ 53"
    using fl_near [of "x * 100"] by (simp add: p_def abs_mult)
  have 2: "\<bar>k - p\<bar> \<le> 1 / 2"
    using rint_near [of p] by (simp add: k_def)
  have 3: "\<bar>t - k / 100\<bar> \<le> \<bar>k\<bar> / 100 / 2 ^ 53"
    using fl_near [of "k / 100"] by (simp add: t_def)
  have 4: "\<bar>k\<bar> \<le> \<bar>x\<bar> * 100 + \<bar>x\<bar> * 100 / 2 ^ 53 + 1 / 2"
    using 1 2 by linarith
  have "t - x = (t - k / 100) + (k - p) / 100 + (p - x * 100) / 100"
    by (simp add: field_simps)
  also have "\<bar>\<dots>\<bar> \<le> \<bar>t - k / 100\<bar> + \<bar>(k - p) / 100\<bar> + \<bar>(p - x * 100) / 100\<bar>"
    by (intro order_trans [OF abs_triangle_ineq] add_mono order_refl)
  finally have "\<bar>t - x\<bar> \<le> \<bar>t - k / 100\<bar> + \<bar>k - p\<bar> / 100 + \<bar>p - x * 100\<bar> / 100"
    by simp
  also have "\<dots> \<le> \<bar>k\<bar> / 100 / 2 ^ 53 + 1 / 200 + \<bar>x\<bar> / 2 ^ 53"
    using 1 2 3 by linarith
  also have "\<dots> \<le> 1 / 200 + (3 * \<bar>x\<bar> + 1) / 2 ^ 53"
    using 4 by (simp add: field_simps)
  finally show ?thesis by (simp add: t)
qed

lemma descending_rev_sort_key: "descending (rev (sort_key Total_Hours_Worked s))"
  using sorted_sort_key [of Total_Hours_Worked s]
  by (simp add: descending_def sorted_wrt_rev sorted_map)

lemma stable_sorts_descending: "sorts_descending stable_sort_values"
  using descending_rev_sort_key [of "rev s" for s]
  by (simp add: sorts_descending_def stable_sort_values_def)

lemma sorted_MANUAL_TECHS: "sorted (map upper MANUAL_TECHS)"
  by (simp add: MANUAL_TECHS_def)

text \<open>
  Claim C2. For every roster \<open>R\<close> and every aggregated mapping \<open>D\<close> (a list of groups
  with one entry per technician, as \<open>grouped\<close> returns), sorted or not, the summary has
  exactly one row per roster technician, so its length is that of \<open>R\<close>; a roster
  technician without a group has \<open>0\<close> work orders and \<open>0.0\<close> hours; and no technician
  outside the roster has a row.
\<close>

theorem summary_left_join:
  assumes "distinct (map fst D)" and "sorts_descending sv"
  shows "length (summary sv flag R D) = length R
    \<and> mset (map Technician (summary sv flag R D)) = mset R
    \<and> Technician ` set (summary sv flag R D) \<subseteq> set R
    \<and> (\<forall>row \<in> set (summary sv flag R D).
          Technician row \<notin> fst ` set D \<longrightarrow>
            Work_Orders_Completed row = 0 \<and> Total_Hours_Worked row = 0)
    \<and> (\<forall>t \<in> set R.
          t \<notin> fst ` set D \<longrightarrow>
            \<lparr>Technician = t, Work_Orders_Completed = 0, Total_Hours_Worked = 0\<rparr>
              \<in> set (summary sv flag R D))"
proof -
  let ?s = "map (joined D) R"
  have ms: "mset (summary sv flag R D) = mset ?s"
    using assms by (simp add: summary_joined sorts_descending_def)
  then have st: "set (summary sv flag R D) = set ?s" by (rule mset_eq_setD)
  have len: "length (summary sv flag R D) = length R"
    using mset_eq_length [OF ms] by simp
  have "mset (map Technician (summary sv flag R D)) = image_mset Technician (mset ?s)"
    using ms by (metis mset_map)
  also have "\<dots> = mset (map Technician ?s)" by (simp only: mset_map)
  also have "map Technician ?s = R" by (simp add: joined_def comp_def)
  finally have techs: "mset (map Technician (summary sv flag R D)) = mset R" .
  have none: "map_of D t = None" if "t \<notin> fst ` set D" for t
    using that by (simp add: map_of_eq_None_iff)
  show ?thesis
    using len techs by (auto simp: st joined_def none round2_zero)
qed

theorem summary_left_join_witness:
  "distinct (map fst small_groups) \<and> sorts_descending stable_sort_values
   \<and> summary stable_sort_values True [''ROHIT'', ''ANISH''] small_groups =
       [\<lparr>Technician = ''ANISH'', Work_Orders_Completed = 2, Total_Hours_Worked = 25 / 2\<rparr>,
        \<lparr>Technician = ''ROHIT'', Work_Orders_Completed = 0, Total_Hours_Worked = 0\<rparr>]
   \<and> ''ROHIT'' \<in> set [''ROHIT'', ''ANISH''] \<and> ''ROHIT'' \<notin> fst ` set small_groups
   \<and> \<lparr>Technician = ''ROHIT'', Work_Orders_Completed = 0, Total_Hours_Worked = 0\<rparr>
        \<in> set (summary stable_sort_values True [''ROHIT'', ''ANISH''] small_groups)
   \<and> length (summary stable_sort_values True [''ROHIT'', ''ANISH''] small_groups) = 2"
proof -
  have d: "distinct (map fst small_groups)" by (simp add: small_groups_def)
  have v: "summary stable_sort_values True [''ROHIT'', ''ANISH''] small_groups =
       [\<lparr>Technician = ''ANISH'', Work_Orders_Completed = 2, Total_Hours_Worked = 25 / 2\<rparr>,
        \<lparr>Technician = ''ROHIT'', Work_Orders_Completed = 0, Total_Hours_Worked = 0\<rparr>]"
    by code_simp
  have n: "''ROHIT'' \<notin> fst ` set small_groups" by (simp add: small_groups_def)
  show ?thesis
    using summary_left_join [OF d stable_sorts_descending, of True "[''ROHIT'', ''ANISH'']"] n
    by (simp add: d stable_sorts_descending v)
qed

text \<open>
  Claim C5, as stated: in every summary each total is \<open>\<ge> 0\<close>. A duration cell holding
  the number \<open>-5\<close> is converted to \<open>-5\<close> hours, summed and rounded as it is: a workbook
  with that one row gives the technician a total of \<open>-5\<close>.
\<close>

theorem summary_negative_total_counterexample:
  "(case snd (app sample_lib stable_sort_values True
               [\<lparr>file_name = ''n.xlsx'', read_excel = Some negative_sheet\<rparr>]) of
      None \<Rightarrow> False
    | Some s \<Rightarrow>
        last s = \<lparr>Technician = ''ANISH'', Work_Orders_Completed = 1, Total_Hours_Worked = - 5\<rparr>)"
  by code_simp

text \<open>
  Claim C5, amended. In every summary, each row's total is the aggregated sum of hours of
  its technician (or the fill \<open>0.0\<close>) rounded to two decimal places as \<open>Series.round(2)\<close>
  does it: the double nearest to a whole number of hundredths, that number being a nearest
  integer to the double product of the sum and 100; the total is within half a hundredth,
  and the error of three double roundings, of the sum. The total is \<open>\<ge> 0\<close> whenever the
  aggregated sum is.
\<close>

theorem summary_total_hours_rounded:
  assumes "distinct (map fst D)" and "sorts_descending sv"
  shows "\<forall>row \<in> set (summary sv flag R D).
           Total_Hours_Worked row = round2 (aggregated_hours D (Technician row))
           \<and> (\<exists>k::int. Total_Hours_Worked row = fl (of_int k / 100)
                  \<and> \<bar>of_int k - fl (aggregated_hours D (Technician row) * 100)\<bar> \<le> 1 / 2)
           \<and> \<bar>Total_Hours_Worked row - aggregated_hours D (Technician row)\<bar>
                \<le> 1 / 200 + (3 * \<bar>aggregated_hours D (Technician row)\<bar> + 1) / 2 ^ 53
           \<and> (0 \<le> aggregated_hours D (Technician row) \<longrightarrow> 0 \<le> Total_Hours_Worked row)"
proof
  fix row
  assume "row \<in> set (summary sv flag R D)"
  moreover have "mset (summary sv flag R D) = mset (map (joined D) R)"
    using assms by (simp add: summary_joined sorts_descending_def)
  ultimately have "row \<in> set (map (joined D) R)"
    by (metis mset_eq_setD)
  then have r: "Total_Hours_Worked row = round2 (aggregated_hours D (Technician row))"
    by (auto simp: joined_def aggregated_hours_def)
  let ?x = "aggregated_hours D (Technician row)"
  have k: "\<exists>k::int. round2 ?x = fl (of_int k / 100) \<and> \<bar>of_int k - fl (?x * 100)\<bar> \<le> 1 / 2"
    using rint_near [of "fl (?x * 100)"] by (auto simp: round2_def)
  show "Total_Hours_Worked row = round2 ?x
           \<and> (\<exists>k::int. Total_Hours_Worked row = fl (of_int k / 100)
                  \<and> \<bar>of_int k - fl (?x * 100)\<bar> \<le> 1 / 2)
           \<and> \<bar>Total_Hours_Worked row - ?x\<bar> \<le> 1 / 200 + (3 * \<bar>?x\<bar> + 1) / 2 ^ 53
           \<and> (0 \<le> ?x \<longrightarrow> 0 \<le> Total_Hours_Worked row)"
    unfolding r using k round2_near [of ?x] round2_nonneg [of ?x] by blast
qed

theorem summary_total_hours_rounded_witness:
  "distinct (map fst double_groups) \<and> sorts_descending stable_sort_values
   \<and> summary stable_sort_values True [''ROHIT'', ''ANISH''] double_groups =
       [\<lparr>Technician = ''ANISH'', Work_Orders_Completed = 2, Total_Hours_Worked = 25 / 2\<rparr>,
        \<lparr>Technician = ''ROHIT'', Work_Orders_Completed = 1,
           Total_Hours_Worked = 6034823500676465 / 2 ^ 51\<rparr>]
   \<and> aggregated_hours double_groups ''ROHIT'' = 3011782250804019 / 2 ^ 50
   \<and> round2 (3011782250804019 / 2 ^ 50) = 6034823500676465 / 2 ^ 51
   \<and> fl (67 / 25) = 6034823500676465 / 2 ^ 51
   \<and> \<bar>6034823500676465 / 2 ^ 51 - 3011782250804019 / 2 ^ 50 :: real\<bar>
        \<le> 1 / 200 + (3 * \<bar>3011782250804019 / 2 ^ 50\<bar> + 1) / 2 ^ 53
   \<and> (0::real) \<le> 3011782250804019 / 2 ^ 50 \<and> (0::real) \<le> 6034823500676465 / 2 ^ 51"
proof -
  let ?row = "\<lparr>Technician = ''ROHIT'', Work_Orders_Completed = 1,
                 Total_Hours_Worked = 6034823500676465 / 2 ^ 51\<rparr>"
  have d: "distinct (map fst double_groups)" by (simp add: double_groups_def)
  have v: "summary stable_sort_values True [''ROHIT'', ''ANISH''] double_groups =
       [\<lparr>Technician = ''ANISH'', Work_Orders_Completed = 2, Total_Hours_Worked = 25 / 2\<rparr>, ?row]"
    by code_simp
  have a: "aggregated_hours double_groups ''ROHIT'' = 3011782250804019 / 2 ^ 50"
    by (simp add: aggregated_hours_def double_groups_def)
  have f: "fl (67 / 25) = 6034823500676465 / 2 ^ 51"
    by code_simp
  have m: "?row \<in> set (summary stable_sort_values True [''ROHIT'', ''ANISH''] double_groups)"
    by (simp add: v)
  have t: "Total_Hours_Worked ?row = 6034823500676465 / 2 ^ 51" "Technician ?row = ''ROHIT''"
    by simp_all
  from bspec [OF summary_total_hours_rounded [OF d stable_sorts_descending] m]
  have "6034823500676465 / 2 ^ 51 = round2 (3011782250804019 / 2 ^ 50)
     \<and> \<bar>6034823500676465 / 2 ^ 51 - 3011782250804019 / 2 ^ 50 :: real\<bar>
        \<le> 1 / 200 + (3 * \<bar>3011782250804019 / 2 ^ 50\<bar> + 1) / 2 ^ 53
     \<and> ((0::real) \<le> 3011782250804019 / 2 ^ 50 \<longrightarrow> (0::real) \<le> 6034823500676465 / 2 ^ 51)"
    unfolding t a by blast
  then show ?thesis
    using d stable_sorts_descending v a f by simp
qed

end
